theory Spec2Isabelle
  imports Complex_Main "HOL-Library.Word" "HOL-Library.Signed_Division"
begin

section \<open>Numeric conventions\<close>

text \<open>
  The compositor of \<^verbatim>\<open>transition_composite.c\<close> computes with C \<^verbatim>\<open>float\<close> and
  \<^verbatim>\<open>double\<close> values. They are modelled here as exact rationals (\<^typ>\<open>rat\<close>): the
  rounding of binary floating point is not part of the model. The concrete examples
  below use values that binary floating point represents exactly, except for the
  percentages of the constructor's default geometry, which are exact rationals here.
  Where the code divides by a value that may be zero the model stops with an explicit
  error: the C value is then an infinity or a NaN, which the rationals do not have (or
  the program traps, for an integer division). C \<^verbatim>\<open>int\<close> is modelled as \<^typ>\<open>int\<close>
  without a bound; samples (\<^verbatim>\<open>uint8_t\<close>) are 8-bit words.
\<close>

definition c_trunc :: "rat \<Rightarrow> int" where
  \<comment> \<open>conversion of a floating value to \<^verbatim>\<open>int\<close>: the fraction is discarded (towards zero)\<close>
  "c_trunc r = (if r < 0 then \<lceil>r\<rceil> else \<lfloor>r\<rfloor>)"

section \<open>The geometry structure\<close>

text \<open>
  \<^verbatim>\<open>struct geometry_s\<close>. The fields carry the prefix \<open>geo_\<close>, since \<open>x\<close>, \<open>y\<close>,
  \<open>w\<close> and \<open>h\<close> as constants would capture the variables of every later statement.
\<close>

record geometry_s =
  geo_nw :: int
  geo_nh :: int
  geo_sw :: int
  geo_sh :: int
  geo_x :: rat
  geo_y :: rat
  geo_w :: rat
  geo_h :: rat
  geo_mix :: rat
  geo_halign :: int
  geo_valign :: int

section \<open>Parsing a geometry string\<close>

text \<open>
  \<^verbatim>\<open>strtod\<close> belongs to the C library, not to this program, so \<open>parse_value\<close> and
  \<open>geometry_parse\<close> take it as a parameter: a function from the text at the pointer to
  the converted value and the text at the end pointer (which \<^verbatim>\<open>strtod\<close> never leaves
  null). \<open>strtod_dec\<close> is the decimal form of the C standard's \<^verbatim>\<open>strtod\<close>: optional
  white space, an optional sign, digits with an optional radix point, an optional
  exponent; when no digit is found no conversion is performed, the value is zero and
  the end pointer is the start of the text. The hexadecimal, \<^verbatim>\<open>inf\<close> and \<^verbatim>\<open>nan\<close>
  forms are outside this model, and no concrete text below uses them.
\<close>

definition isspace_c :: "char \<Rightarrow> bool" where
  "isspace_c c = (c \<in> set [CHR '' '', CHR 0x09, CHR 0x0A, CHR 0x0B, CHR 0x0C, CHR 0x0D])"

definition isdigit_c :: "char \<Rightarrow> bool" where
  "isdigit_c c = (c \<in> set ''0123456789'')"

definition digit_val :: "char \<Rightarrow> nat" where
  "digit_val c = (of_char c :: nat) - 48"

definition digits_val :: "string \<Rightarrow> nat" where
  "digits_val ds = foldl (\<lambda>a c. 10 * a + digit_val c) 0 ds"

definition take_sign :: "string \<Rightarrow> bool \<times> string" where
  "take_sign s =
     (case s of
        [] \<Rightarrow> (False, s)
      | c # r \<Rightarrow> if c = CHR ''-'' then (True, r)
                 else if c = CHR ''+'' then (False, r) else (False, s))"

definition take_exponent :: "string \<Rightarrow> int \<times> string" where
  "take_exponent s =
     (case s of
        [] \<Rightarrow> (0, s)
      | c # r \<Rightarrow>
          if c = CHR ''e'' \<or> c = CHR ''E'' then
            (let (eneg, r2) = take_sign r;
                 ed = takeWhile isdigit_c r2
             in if ed = [] then (0, s)
                else ((if eneg then - int (digits_val ed) else int (digits_val ed)),
                      dropWhile isdigit_c r2))
          else (0, s))"

definition pow10 :: "int \<Rightarrow> rat" where
  "pow10 e = (if 0 \<le> e then 10 ^ nat e else 1 / 10 ^ nat (- e))"

definition strtod_dec :: "string \<Rightarrow> rat \<times> string" where
  "strtod_dec s =
     (let (neg, s2) = take_sign (dropWhile isspace_c s);
          ip = takeWhile isdigit_c s2;
          s3 = dropWhile isdigit_c s2;
          (fp, s4) = (case s3 of
                        [] \<Rightarrow> ([], s3)
                      | c # r \<Rightarrow> if c = CHR ''.''
                                 then (takeWhile isdigit_c r, dropWhile isdigit_c r)
                                 else ([], s3))
      in if ip = [] \<and> fp = [] then (0, s)
         else (let m = rat_of_nat (digits_val (ip @ fp)) / 10 ^ length fp;
                   (e, s5) = take_exponent s4
               in ((if neg then - m else m) * pow10 e, s5)))"

text \<open>
  \<^verbatim>\<open>parse_value\<close>. The pointer \<^verbatim>\<open>*ptr\<close> is the remaining text, or \<open>None\<close> for a
  null pointer; the function returns the value and the advanced pointer.
\<close>

definition parse_value ::
  "(string \<Rightarrow> rat \<times> string) \<Rightarrow> string option \<Rightarrow> int \<Rightarrow> char \<Rightarrow> rat \<Rightarrow> rat \<times> string option"
where
  "parse_value strtod ptr normalisation delim defaults =
     (case ptr of
        None \<Rightarrow> (defaults, ptr)
      | Some s \<Rightarrow>
          if s = [] then (defaults, ptr)
          else (let (v, endp) = strtod s;
                    v' = (case endp of
                            [] \<Rightarrow> v
                          | c # _ \<Rightarrow> if c = CHR ''%''
                                     then (v / 100) * rat_of_int normalisation else v)
                in (v', Some (dropWhile (\<lambda>c. c = delim \<or> c = CHR ''%'') endp))))"

text \<open>
  \<^verbatim>\<open>geometry_parse\<close>. The structure written to is passed in and returned, since the
  code leaves the fields it does not assign as they were. The chained assignment
  \<^verbatim>\<open>geometry->w = geometry->sw = v\<close> stores the truncated integer in \<open>sw\<close> and then
  the value of that assignment, the integer, in \<open>w\<close>.
\<close>

definition geometry_parse ::
  "(string \<Rightarrow> rat \<times> string) \<Rightarrow> geometry_s \<Rightarrow> geometry_s option \<Rightarrow> string option
     \<Rightarrow> int \<Rightarrow> int \<Rightarrow> geometry_s"
where
  "geometry_parse strtod geometry defaults property nw nh =
     (let g0 = geometry\<lparr>geo_nw := nw, geo_nh := nh\<rparr>;
          g1 = (case defaults of
                  Some d \<Rightarrow>
                    g0\<lparr>geo_x := geo_x d, geo_y := geo_y d,
                       geo_sw := c_trunc (geo_w d), geo_w := rat_of_int (c_trunc (geo_w d)),
                       geo_sh := c_trunc (geo_h d), geo_h := rat_of_int (c_trunc (geo_h d)),
                       geo_mix := geo_mix d\<rparr>
                | None \<Rightarrow> g0\<lparr>geo_mix := 100\<rparr>)
      in case property of
           None \<Rightarrow> g1
         | Some p \<Rightarrow>
             (let (vx, p1) = parse_value strtod (Some p) nw (CHR '','') (geo_x g1);
                  (vy, p2) = parse_value strtod p1 nh (CHR '':'') (geo_y g1);
                  (vw, p3) = parse_value strtod p2 nw (CHR ''x'') (geo_w g1);
                  (vh, p4) = parse_value strtod p3 nh (CHR '':'') (geo_h g1);
                  (vm, p5) = parse_value strtod p4 100 (CHR '' '') (geo_mix g1)
              in g1\<lparr>geo_x := vx, geo_y := vy,
                    geo_sw := c_trunc vw, geo_w := rat_of_int (c_trunc vw),
                    geo_sh := c_trunc vh, geo_h := rat_of_int (c_trunc vh),
                    geo_mix := vm\<rparr>))"

section \<open>Interpolation and alignment\<close>


definition alignment_calculate :: "geometry_s \<Rightarrow> geometry_s" where
  "alignment_calculate geometry =
     geometry\<lparr>geo_x := geo_x geometry
                 + (geo_w geometry - rat_of_int (geo_sw geometry))
                     * rat_of_int (geo_halign geometry) / 2 + 1 / 2,
              geo_y := geo_y geometry
                 + (geo_h geometry - rat_of_int (geo_sh geometry))
                     * rat_of_int (geo_valign geometry) / 2 + 1 / 2\<rparr>"

section \<open>Scaling the overlay\<close>

text \<open>
  Where the model stops: \<open>Non_finite\<close> for a floating division by zero (the C value
  is an infinity or a NaN, which \<^typ>\<open>rat\<close> does not have), \<open>Div_by_zero\<close> for an
  integer division by zero (a trap).
\<close>

datatype c_error = Non_finite | Div_by_zero

definition get_value :: "(string \<Rightarrow> int) \<Rightarrow> string \<Rightarrow> string \<Rightarrow> int" where
  \<comment> \<open>the integer properties of a frame as a function; a missing property reads 0\<close>
  "get_value properties preferred fallback =
     (let v = properties preferred in if v = 0 then properties fallback else v)"

text \<open>
  ``Adjust to consumer scale'': the two lines that \<^verbatim>\<open>get_b_frame_image\<close> and
  \<^verbatim>\<open>composite_yuv\<close> both use to turn the position of a geometry into pixels of an
  image of the given width and height; \<open>consumer_x\<close> includes \<^verbatim>\<open>x -= x % 2\<close>.
  Both are used only where \<open>nw\<close> and \<open>nh\<close> are not zero.
\<close>

definition consumer_x :: "geometry_s \<Rightarrow> int \<Rightarrow> int" where
  "consumer_x geometry width =
     (let x = c_trunc (geo_x geometry * rat_of_int width / rat_of_int (geo_nw geometry) + 1 / 2)
      in x - x smod 2)"

definition consumer_y :: "geometry_s \<Rightarrow> int \<Rightarrow> int" where
  "consumer_y geometry height =
     c_trunc (geo_y geometry * rat_of_int height / rat_of_int (geo_nh geometry) + 1 / 2)"

text \<open>
  The block of \<^verbatim>\<open>get_b_frame_image\<close> that runs when the transition has no
  \<^verbatim>\<open>distort\<close> property: the pixel aspect correction of the overlay's real size, the
  two clamps to the requested box, and the adoption of the result as \<open>sw\<close>, \<open>sh\<close>.
\<close>

definition aspect_scaled :: "geometry_s \<Rightarrow> int \<Rightarrow> int \<Rightarrow> rat \<Rightarrow> rat \<Rightarrow> c_error + int \<times> int" where
  "aspect_scaled geometry real_width real_height input_ar output_ar =
     (if geo_nh geometry = 0 \<or> output_ar = 0 then Inl Non_finite
      else
        (let output_sar = rat_of_int (geo_nw geometry) / rat_of_int (geo_nh geometry) / output_ar
         in if output_sar < 1 then
              (if input_ar = 0 \<or> output_sar = 0 then Inl Non_finite
               else Inr (real_width, c_trunc (rat_of_int real_width / input_ar / output_sar)))
            else Inr (c_trunc (output_sar * rat_of_int real_height * input_ar), real_height)))"

definition fit_width :: "int \<Rightarrow> int \<times> int \<Rightarrow> c_error + int \<times> int" where
  "fit_width normalised_width sc =
     (let (scaled_width, scaled_height) = sc
      in if scaled_width > normalised_width then
           (if scaled_width = 0 then Inl Div_by_zero
            else Inr (normalised_width, (scaled_height * normalised_width) sdiv scaled_width))
         else Inr sc)"

definition fit_height :: "int \<Rightarrow> int \<times> int \<Rightarrow> c_error + int \<times> int" where
  "fit_height normalised_height sc =
     (let (scaled_width, scaled_height) = sc
      in if scaled_height > normalised_height then
           (if scaled_height = 0 then Inl Div_by_zero
            else Inr ((scaled_width * normalised_height) sdiv scaled_height, normalised_height))
         else Inr sc)"

definition save_scaled :: "geometry_s \<Rightarrow> int \<times> int \<Rightarrow> geometry_s" where
  "save_scaled geometry sc =
     (let (scaled_width, scaled_height) = sc
      in if rat_of_int scaled_width \<le> geo_w geometry \<and> rat_of_int scaled_height \<le> geo_h geometry
         then geometry\<lparr>geo_sw := scaled_width, geo_sh := scaled_height\<rparr>
         else geometry)"

definition normalise_aspect ::
  "(string \<Rightarrow> int) \<Rightarrow> rat \<Rightarrow> rat \<Rightarrow> geometry_s \<Rightarrow> c_error + geometry_s"
where
  "normalise_aspect b_props input_ar output_ar geometry =
     (let normalised_width = c_trunc (geo_w geometry);
          normalised_height = c_trunc (geo_h geometry);
          real_width = get_value b_props ''real_width'' ''width'';
          real_height = get_value b_props ''real_height'' ''height''
      in case aspect_scaled geometry real_width real_height input_ar output_ar of
           Inl e \<Rightarrow> Inl e
         | Inr sc0 \<Rightarrow>
             (case fit_width normalised_width sc0 of
                Inl e \<Rightarrow> Inl e
              | Inr sc1 \<Rightarrow>
                  (case fit_height normalised_height sc1 of
                     Inl e \<Rightarrow> Inl e
                   | Inr sc2 \<Rightarrow> Inr (save_scaled geometry sc2))))"

text \<open>
  \<^verbatim>\<open>get_b_frame_image\<close> up to its call of the frame supplier. The result says
  whether the function returned 1 without asking for an image (\<open>Nothing_to_draw\<close>) or
  called \<^verbatim>\<open>mlt_frame_get_image\<close> with the given width and height (\<open>Get_image\<close>);
  the geometry is returned as the function leaves it. \<open>b_props\<close> are the integer
  properties of the overlay frame, \<open>input_ar\<close> its aspect ratio, \<open>output_ar\<close> its
  \<^verbatim>\<open>consumer_aspect_ratio\<close>, \<open>distort\<close> the transition's property of that name.
  The write of \<^verbatim>\<open>distort\<close> to the overlay frame is not modelled: nothing here reads
  it.
\<close>

datatype b_request = Nothing_to_draw | Get_image int int

definition get_b_frame_image ::
  "(string \<Rightarrow> int) \<Rightarrow> rat \<Rightarrow> rat \<Rightarrow> string option \<Rightarrow> int \<Rightarrow> int \<Rightarrow> geometry_s
     \<Rightarrow> c_error + geometry_s \<times> b_request"
where
  "get_b_frame_image b_props input_ar output_ar distort width height geometry =
     (let g1 = geometry\<lparr>geo_sw := c_trunc (geo_w geometry), geo_sh := c_trunc (geo_h geometry)\<rparr>
      in case (case distort of
                 None \<Rightarrow> normalise_aspect b_props input_ar output_ar g1
               | Some _ \<Rightarrow> Inr g1) of
           Inl e \<Rightarrow> Inl e
         | Inr g2 \<Rightarrow>
             (let g3 = alignment_calculate g2
              in if geo_nw g3 = 0 \<or> geo_nh g3 = 0 then Inl Non_finite
                 else
                   (let x = consumer_x g3 width;
                        y = consumer_y g3 height;
                        width' = (geo_sw g3 * width) sdiv geo_nw g3;
                        height' = (geo_sh g3 * height) sdiv geo_nh g3
                    in if width' \<le> 0 \<or> height' \<le> 0 then Inr (g3, Nothing_to_draw)
                       else if (x < 0 \<and> - x \<ge> width') \<or> (y < 0 \<and> - y \<ge> height')
                       then Inr (g3, Nothing_to_draw)
                       else Inr (g3, Get_image width' height'))))"

section \<open>Compositing\<close>

text \<open>
  A pixel buffer is a store from byte offsets to samples; a pointer into it is an
  offset from its start, so the pointer arithmetic of the code is integer arithmetic,
  and an access outside the allocated bytes is an access at an offset outside
  \<open>0 ..< size\<close>. The destination, the source and the alpha mask are separate buffers.
\<close>

type_synonym buffer = "int \<Rightarrow> 8 word"

definition blend_sample :: "8 word \<Rightarrow> 8 word \<Rightarrow> rat \<Rightarrow> 8 word" where
  \<comment> \<open>\<^verbatim>\<open>(uint8_t)( Y * value + *q++ * ( 1 - value ) )\<close>; for a mix in 0 to 100 the
      sum lies in 0 to 255, outside that range the conversion is taken modulo 256\<close>
  "blend_sample s d v =
     word_of_int (c_trunc (rat_of_int (uint s) * v + rat_of_int (uint d) * (1 - v)))"

text \<open>
  The inner loop over \<open>j\<close>: \<open>n\<close> pixels remain, \<open>p\<close> reads the source, \<open>q\<close> reads
  and writes the destination (the code's \<open>q\<close> and \<open>o\<close> are always equal), \<open>z\<close> reads
  the alpha mask when there is one.
\<close>

fun composite_line ::
  "nat \<Rightarrow> buffer \<Rightarrow> buffer option \<Rightarrow> rat \<Rightarrow> int \<Rightarrow> int \<Rightarrow> int \<Rightarrow> buffer \<Rightarrow> buffer"
where
  "composite_line 0 src alpha weight p q z dest = dest"
| "composite_line (Suc n) src alpha weight p q z dest =
     (let Y = src p;
          UV = src (p + 1);
          a = (case alpha of None \<Rightarrow> 255 | Some m \<Rightarrow> m z);
          v = weight * rat_of_int (uint a) / 255;
          dest1 = dest(q := blend_sample Y (dest q) v);
          dest2 = dest1(q + 1 := blend_sample UV (dest1 (q + 1)) v)
      in composite_line n src alpha weight (p + 2) (q + 2) (z + 1) dest2)"

text \<open>
  The outer loop over \<open>i\<close>, which advances by 2 in a field pass and by 1 otherwise.
\<close>

function composite_lines ::
  "int \<Rightarrow> int \<Rightarrow> int \<Rightarrow> int \<Rightarrow> int \<Rightarrow> int \<Rightarrow> buffer \<Rightarrow> int \<Rightarrow> buffer option \<Rightarrow> int
     \<Rightarrow> rat \<Rightarrow> int \<Rightarrow> buffer \<Rightarrow> buffer"
where
  "composite_lines i field height_src width_src stride_src stride_dest
       src p_src alpha p_alpha weight p_dest dest =
     (if i < height_src then
        composite_lines (i + (if field > -1 then 2 else 1)) field height_src width_src
          stride_src stride_dest src p_src alpha p_alpha weight p_dest
          (composite_line (nat width_src) src alpha weight
             (p_src + i * stride_src) (p_dest + i * stride_dest)
             (p_alpha + (i * stride_src) sdiv 2) dest)
      else dest)"
  by pat_completeness auto
termination
  by (relation "measure (\<lambda>(i, field, height_src, _). nat (height_src - i))") auto

text \<open>
  \<^verbatim>\<open>composite_yuv\<close>. The function returns the destination buffer as it leaves it
  (its status code is always 0).
\<close>

definition composite_yuv ::
  "buffer \<Rightarrow> int \<Rightarrow> int \<Rightarrow> buffer \<Rightarrow> int \<Rightarrow> int \<Rightarrow> buffer option \<Rightarrow> geometry_s \<Rightarrow> int
     \<Rightarrow> c_error + buffer"
where
  "composite_yuv dest width_dest height_dest src width_src height_src alpha geometry field =
     (if geo_nw geometry = 0 \<or> geo_nh geometry = 0 then Inl Non_finite
      else
        (let weight = geo_mix geometry / 100;
             stride_src = width_src * 2;
             stride_dest = width_dest * 2;
             x = consumer_x geometry width_dest;
             y = consumer_y geometry height_dest
         in if width_src \<le> 0 \<or> height_src \<le> 0 then Inr dest
            else if (x < 0 \<and> - x \<ge> width_src) \<or> (y < 0 \<and> - y \<ge> height_src) then Inr dest
            else
              (let (x_src, width_src1, x1) =
                     (if x < 0 then (- x, width_src - (- x), 0)
                      else if x + width_src > width_dest then (0, width_dest - x, x)
                      else (0, width_src, x));
                   (y_src, height_src1) =
                     (if y < 0 then (- y, height_src - (- y))
                      else if y + height_src > height_dest then (0, height_dest - y)
                      else (0, height_src));
                   p_src = x_src * 2 + y_src * stride_src;
                   p_dest = (if x1 < 0 then 0 else x1) * 2 + (if y < 0 then 0 else y) * stride_dest;
                   p_alpha = x_src + (y_src * stride_src) sdiv 2;
                   p_dest1 = (if field > -1 \<and> y smod 2 = field
                              then (if y = 0 then p_dest + stride_dest else p_dest - stride_dest)
                              else p_dest);
                   (p_src1, p_alpha1, height_src2) =
                     (if field = 1
                      then (p_src + stride_src, p_alpha + stride_src sdiv 2, height_src1 - 1)
                      else (p_src, p_alpha, height_src1))
               in Inr (composite_lines 0 field height_src2 width_src1 stride_src stride_dest
                         src p_src1 alpha p_alpha1 weight p_dest1 dest))))"

section \<open>The constructor\<close>




section \<open>Auxiliary facts\<close>

text \<open>
  The recursion equation of the outer loop is applied by hand, one line at a time.
\<close>

declare composite_lines.simps [simp del]

lemma c_trunc_of_int [simp]: "c_trunc (rat_of_int n) = n"
  by (simp add: c_trunc_def)

lemma c_trunc_numeral [simp]:
  "c_trunc 0 = 0" "c_trunc 1 = 1" "c_trunc (numeral a) = numeral a"
  "c_trunc (- numeral a) = - numeral a"
  by (simp_all add: c_trunc_def)

lemma floor_rat_divide_numeral:
  "\<lfloor>numeral a / numeral b :: rat\<rfloor> = numeral a div numeral b"
  using floor_divide_of_int_eq [of "numeral a" "numeral b", where ?'a = rat] by simp

lemma floor_rat_one_divide_numeral:
  "\<lfloor>1 / numeral b :: rat\<rfloor> = 1 div numeral b"
  using floor_divide_of_int_eq [of 1 "numeral b", where ?'a = rat] by simp

lemma c_trunc_divide_numeral [simp]:
  "c_trunc (numeral a / numeral b) = numeral a div numeral b"
  "c_trunc (1 / numeral b) = 1 div numeral b"
  "c_trunc (- (numeral a / numeral b)) = - (numeral a div numeral b)"
  "c_trunc (- (1 / numeral b)) = - (1 div numeral b)"
  by (simp_all add: c_trunc_def ceiling_def floor_rat_divide_numeral floor_rat_one_divide_numeral)

lemma blend_sample_opaque [simp]: "blend_sample s d 1 = s"
proof -
  have "blend_sample s d 1 = word_of_int (c_trunc (rat_of_int (uint s)))"
    unfolding blend_sample_def by (simp only: diff_self mult_zero_right add_0_right mult_1_right)
  also have "\<dots> = word_of_int (uint s)" by (simp only: c_trunc_of_int)
  also have "\<dots> = s" by simp
  finally show ?thesis .
qed

lemma composite_line_frame:
  "k < q \<or> q + 2 * int n \<le> k \<Longrightarrow> composite_line n src alpha weight p q z dest k = dest k"
  by (induction n arbitrary: p q z dest) (auto simp: Let_def)






lemma composite_line_2:
  "composite_line 2 src alpha weight p q z dest
   = composite_line (Suc (Suc 0)) src alpha weight p q z dest"
  by (simp only: numeral_2_eq_2)

lemmas pixel_eval = consumer_x_def consumer_y_def
  signed_modulo_int_def signed_divide_int_def

lemmas strtod_eval = strtod_dec_def take_sign_def take_exponent_def
  isspace_c_def isdigit_c_def digits_val_def digit_val_def pow10_def

section \<open>Full opacity\<close>




section \<open>Field parity\<close>

text \<open>
  Claim C2, the code at a failing input. The destination has 4 rows of 2 pixels, the
  overlay 4 rows of 2 pixels, and the geometry puts the overlay at the pixel row
  \<open>y = -1\<close> (\<open>geo_y = -2\<close> on a normalised height of 4 gives \<open>-1.5\<close>, truncated
  towards zero). The pass for field 0 then writes the bytes 0 to 3 and 8 to 11, that
  is rows 0 and 2 of the destination, the even rows, and no odd row.
\<close>

theorem composite_yuv_lower_field_even_rows:
  "composite_yuv (\<lambda>_. 0) 2 4 (\<lambda>k. word_of_int k) 2 4 None
       \<lparr>geo_nw = 2, geo_nh = 4, geo_sw = 2, geo_sh = 4, geo_x = 0, geo_y = - 2,
        geo_w = 2, geo_h = 4, geo_mix = 100, geo_halign = 0, geo_valign = 0\<rparr> 0
   = Inr ((\<lambda>_. 0)(0 := 4, 1 := 5, 2 := 6, 3 := 7, 8 := 12, 9 := 13, 10 := 14, 11 := 15))"
  by (simp add: composite_yuv_def pixel_eval composite_lines.simps composite_line_2 Let_def)

section \<open>Interpolation\<close>


section \<open>Nothing to draw\<close>


lemma composite_lines_no_columns:
  "width_src \<le> 0 \<Longrightarrow>
   composite_lines i field height_src width_src stride_src stride_dest
       src p_src alpha p_alpha weight p_dest dest = dest"
proof (induction i field height_src width_src stride_src stride_dest
       src p_src alpha p_alpha weight p_dest dest rule: composite_lines.induct)
  case (1 i field height_src width_src stride_src stride_dest src p_src alpha p_alpha weight p_dest dest)
  then show ?case
    by (subst composite_lines.simps) simp
qed






section \<open>Field passes at or below the top edge\<close>

lemma row_of_offset:
  fixes k sd a :: int
  assumes "0 < sd" "a * sd \<le> k" "k < a * sd + sd"
  shows "k div sd = a"
proof -
  have "k = sd * a + (k - a * sd)" by (simp add: algebra_simps)
  moreover have "0 \<le> k - a * sd" "k - a * sd < sd" using assms by simp_all
  ultimately show ?thesis by (rule int_div_pos_eq)
qed

lemma composite_lines_other_field:
  "field = 0 \<or> field = 1 \<Longrightarrow> 0 < stride_dest \<Longrightarrow> 0 \<le> off \<Longrightarrow>
   off + 2 * int (nat width_src) \<le> stride_dest \<Longrightarrow> even i \<Longrightarrow>
   (k div stride_dest) mod 2 \<noteq> R mod 2 \<Longrightarrow>
   composite_lines i field height_src width_src stride_src stride_dest
       src p_src alpha p_alpha weight (off + R * stride_dest) dest k = dest k"
proof (induction i field height_src width_src stride_src stride_dest
       src p_src alpha p_alpha weight "off + R * stride_dest" dest rule: composite_lines.induct)
  case (1 i field height_src width_src stride_src stride_dest src p_src alpha p_alpha weight dest)
  show ?case
  proof (cases "i < height_src")
    case True
    have step: "(if field > -1 then 2 else 1) = (2::int)" using "1.prems"(1) by auto
    have out: "k < off + R * stride_dest + i * stride_dest
        \<or> off + R * stride_dest + i * stride_dest + 2 * int (nat width_src) \<le> k"
    proof (rule ccontr)
      assume "\<not> ?thesis"
      then have a: "(R + i) * stride_dest \<le> k" "k < (R + i) * stride_dest + stride_dest"
        using "1.prems"(3,4) by (simp_all add: algebra_simps)
      have "k div stride_dest = R + i"
        by (rule row_of_offset [OF "1.prems"(2) a])
      moreover have "(R + i) mod 2 = R mod 2"
        using "1.prems"(5) by presburger
      ultimately have "(k div stride_dest) mod 2 = R mod 2"
        by simp
      then show False using "1.prems"(6) by simp
    qed
    have "even (i + 2)" using "1.prems"(5) by simp
    with "1.hyps" [OF True] "1.prems" step out True show ?thesis
      by (subst composite_lines.simps) (simp add: composite_line_frame)
  next
    case False
    then show ?thesis by (subst composite_lines.simps) simp
  qed
qed


text \<open>
  Where the parity convention does hold: when the overlay starts at or below the top
  edge (\<open>y \<ge> 0\<close>) and, if cropped on the left, does not reach beyond the right
  edge, a field pass leaves every byte in a row of the other parity as it was: the
  pass for field 0 leaves the even rows, the pass for field 1 the odd rows.
\<close>

lemma composite_yuv_other_field:
  assumes nz: "geo_nw g \<noteq> 0" "geo_nh g \<noteq> 0"
    and fld: "field = 0 \<or> field = 1"
    and y: "0 \<le> consumer_y g height_dest"
    and x: "0 \<le> consumer_x g width_dest \<or> width_src + consumer_x g width_dest \<le> width_dest"
    and wd: "0 < width_dest"
    and k: "(k div (width_dest * 2)) mod 2 = field"
  shows "\<exists>dest'. composite_yuv dest width_dest height_dest src width_src height_src alpha g field
            = Inr dest' \<and> dest' k = dest k"
proof -
  define cx where "cx = consumer_x g width_dest"
  define cy where "cy = consumer_y g height_dest"
  define W1 where "W1 = (if cx < 0 then width_src + cx
         else if cx + width_src > width_dest then width_dest - cx else width_src)"
  define x1 where "x1 = (if cx < 0 then 0 else cx)"
  define R where "R = (if cy smod 2 = field then (if cy = 0 then 1 else cy - 1) else cy)"
  define sd where "sd = width_dest * 2"
  show ?thesis
  proof (cases "width_src \<le> 0 \<or> height_src \<le> 0 \<or> (cx < 0 \<and> width_src \<le> - cx)")
    case True
    then show ?thesis
      using nz by (auto simp: composite_yuv_def Let_def cx_def)
  next
    case False
    have cy0: "0 \<le> cy" using y by (simp add: cy_def)
    have smod: "cy smod 2 = cy mod 2"
      using cy0 by (simp add: signed_modulo_int_def sgn_if)
    have R: "R mod 2 \<noteq> field"
      using fld cy0 unfolding R_def smod by presburger
    have fit: "0 \<le> x1 * 2" "x1 * 2 + 2 * int (nat W1) \<le> sd" if "0 < W1"
      using x False wd that by (auto simp: x1_def W1_def sd_def cx_def split: if_splits)
    have pd: "(if field > -1 \<and> cy smod 2 = field
               then (if cy = 0 then x1 * 2 + cy * sd + sd else x1 * 2 + cy * sd - sd)
               else x1 * 2 + cy * sd) = x1 * 2 + R * sd"
      using fld by (auto simp: R_def algebra_simps)
    have frame: "composite_lines 0 field H W1 ss sd src ps alpha pa wt (x1 * 2 + R * sd) dest k
        = dest k" for H ss ps pa wt
    proof (cases "0 < W1")
      case True
      show ?thesis
        using R k by (intro composite_lines_other_field fld fit [OF True]) (simp_all add: sd_def wd)
    next
      case False
      then show ?thesis by (simp add: composite_lines_no_columns)
    qed
    have "composite_yuv dest width_dest height_dest src width_src height_src alpha g field
        = Inr (composite_lines 0 field
            (if field = 1 then (if cy + height_src > height_dest then height_dest - cy
                                else height_src) - 1
             else (if cy + height_src > height_dest then height_dest - cy else height_src))
            W1 (width_src * 2) sd src
            (if field = 1 then (if cx < 0 then - cx else 0) * 2 + width_src * 2
             else (if cx < 0 then - cx else 0) * 2)
            alpha
            (if field = 1 then (if cx < 0 then - cx else 0) + (width_src * 2) sdiv 2
             else (if cx < 0 then - cx else 0))
            (geo_mix g / 100) (x1 * 2 + R * sd) dest)"
      using nz False cy0 fld unfolding pd [symmetric]
      unfolding composite_yuv_def cx_def [symmetric] cy_def [symmetric] Let_def
        W1_def x1_def sd_def
      by (auto simp: not_le)
    then show ?thesis using frame by simp
  qed
qed

section \<open>The scaled box\<close>

lemma c_trunc_le: "0 \<le> r \<Longrightarrow> rat_of_int (c_trunc r) \<le> r"
  by (simp add: c_trunc_def)

lemma c_trunc_nonneg: "0 \<le> r \<Longrightarrow> 0 \<le> c_trunc r"
  by (simp add: c_trunc_def)

lemma save_scaled_fields [simp]:
  "geo_w (save_scaled g sc) = geo_w g" "geo_h (save_scaled g sc) = geo_h g"
  "geo_nw (save_scaled g sc) = geo_nw g" "geo_nh (save_scaled g sc) = geo_nh g"
  by (simp_all add: save_scaled_def split: prod.splits)

lemma save_scaled_fits:
  "rat_of_int (geo_sw g) \<le> geo_w g \<Longrightarrow> rat_of_int (geo_sh g) \<le> geo_h g \<Longrightarrow>
   rat_of_int (geo_sw (save_scaled g sc)) \<le> geo_w g
   \<and> rat_of_int (geo_sh (save_scaled g sc)) \<le> geo_h g"
  by (simp add: save_scaled_def split: prod.splits)

lemma aspect_scaled_Inr:
  "geo_nw g \<noteq> 0 \<Longrightarrow> geo_nh g \<noteq> 0 \<Longrightarrow> input_ar \<noteq> 0 \<Longrightarrow> output_ar \<noteq> 0 \<Longrightarrow>
   \<exists>sc. aspect_scaled g rw rh input_ar output_ar = Inr sc"
  by (simp add: aspect_scaled_def Let_def)

lemma fit_width_Inr: "0 \<le> n \<Longrightarrow> \<exists>sc'. fit_width n sc = Inr sc'"
  by (cases sc) (simp add: fit_width_def)

lemma fit_height_Inr: "0 \<le> n \<Longrightarrow> \<exists>sc'. fit_height n sc = Inr sc'"
  by (cases sc) (simp add: fit_height_def)

lemma normalise_aspect_Inr:
  assumes "geo_nw g \<noteq> 0" "geo_nh g \<noteq> 0" "input_ar \<noteq> 0" "output_ar \<noteq> 0"
    and "0 \<le> geo_w g" "0 \<le> geo_h g"
  shows "\<exists>sc. normalise_aspect b_props input_ar output_ar g = Inr (save_scaled g sc)"
proof -
  obtain sc0 where a: "aspect_scaled g (get_value b_props ''real_width'' ''width'')
      (get_value b_props ''real_height'' ''height'') input_ar output_ar = Inr sc0"
    using aspect_scaled_Inr [OF assms(1-4)] by blast
  obtain sc1 where b: "fit_width (c_trunc (geo_w g)) sc0 = Inr sc1"
    using fit_width_Inr [OF c_trunc_nonneg [OF assms(5)]] by blast
  obtain sc2 where c: "fit_height (c_trunc (geo_h g)) sc1 = Inr sc2"
    using fit_height_Inr [OF c_trunc_nonneg [OF assms(6)]] by blast
  show ?thesis
    by (rule exI [of _ sc2]) (simp add: normalise_aspect_def a b c)
qed

lemma alignment_calculate_fields [simp]:
  "geo_w (alignment_calculate g) = geo_w g" "geo_h (alignment_calculate g) = geo_h g"
  "geo_nw (alignment_calculate g) = geo_nw g" "geo_nh (alignment_calculate g) = geo_nh g"
  "geo_sw (alignment_calculate g) = geo_sw g" "geo_sh (alignment_calculate g) = geo_sh g"
  by (simp_all add: alignment_calculate_def)

lemma get_b_frame_image_tail:
  "geo_nw g3 \<noteq> 0 \<Longrightarrow> geo_nh g3 \<noteq> 0 \<Longrightarrow>
   \<exists>r. (let x = consumer_x g3 width;
            y = consumer_y g3 height;
            width' = (geo_sw g3 * width) sdiv geo_nw g3;
            height' = (geo_sh g3 * height) sdiv geo_nh g3
        in if width' \<le> 0 \<or> height' \<le> 0 then Inr (g3, Nothing_to_draw)
           else if (x < 0 \<and> - x \<ge> width') \<or> (y < 0 \<and> - y \<ge> height')
           then Inr (g3, Nothing_to_draw)
           else Inr (g3, Get_image width' height'))
       = (Inr (g3, r) :: c_error + geometry_s \<times> b_request)"
  by (simp add: Let_def)

text \<open>
  Claim C6, as amended. For every geometry whose requested width and height are not
  negative, every native size of the overlay and every aspect ratio configuration
  (with \<open>nw\<close>, \<open>nh\<close> and, when the aspect block runs, the two aspect ratios not
  zero), \<^verbatim>\<open>get_b_frame_image\<close> completes its negotiation, leaves \<open>w\<close> and \<open>h\<close> as
  they were and leaves \<open>sw \<le> w\<close> and \<open>sh \<le> h\<close>.
\<close>

theorem scaled_within_requested:
  assumes "geo_nw g \<noteq> 0" and "geo_nh g \<noteq> 0"
    and "distort = None \<longrightarrow> input_ar \<noteq> 0 \<and> output_ar \<noteq> 0"
    and "0 \<le> geo_w g" and "0 \<le> geo_h g"
  shows "\<exists>g' r. get_b_frame_image b_props input_ar output_ar distort width height g = Inr (g', r)
           \<and> geo_w g' = geo_w g \<and> geo_h g' = geo_h g
           \<and> rat_of_int (geo_sw g') \<le> geo_w g' \<and> rat_of_int (geo_sh g') \<le> geo_h g'"
proof -
  define g1 where "g1 = g\<lparr>geo_sw := c_trunc (geo_w g), geo_sh := c_trunc (geo_h g)\<rparr>"
  have g1: "geo_nw g1 \<noteq> 0" "geo_nh g1 \<noteq> 0" "geo_w g1 = geo_w g" "geo_h g1 = geo_h g"
    "rat_of_int (geo_sw g1) \<le> geo_w g1" "rat_of_int (geo_sh g1) \<le> geo_h g1"
    using assms by (simp_all add: g1_def c_trunc_le)
  have "\<exists>g2. (case distort of None \<Rightarrow> normalise_aspect b_props input_ar output_ar g1
                | Some _ \<Rightarrow> Inr g1) = Inr g2
          \<and> geo_nw g2 = geo_nw g \<and> geo_nh g2 = geo_nh g
          \<and> geo_w g2 = geo_w g \<and> geo_h g2 = geo_h g
          \<and> rat_of_int (geo_sw g2) \<le> geo_w g2 \<and> rat_of_int (geo_sh g2) \<le> geo_h g2"
  proof (cases distort)
    case None
    then have ar: "input_ar \<noteq> 0" "output_ar \<noteq> 0" using assms(3) by simp_all
    obtain sc where "normalise_aspect b_props input_ar output_ar g1 = Inr (save_scaled g1 sc)"
      using normalise_aspect_Inr [OF g1(1,2) ar, of b_props] g1 assms(4,5) by auto
    then show ?thesis
      using None save_scaled_fits [OF g1(5,6), of sc] g1 by (auto simp: g1_def)
  next
    case (Some a)
    then show ?thesis using g1 by (auto simp: g1_def)
  qed
  then obtain g2 where g2:
    "(case distort of None \<Rightarrow> normalise_aspect b_props input_ar output_ar g1
                | Some _ \<Rightarrow> Inr g1) = Inr g2"
    "geo_nw g2 = geo_nw g" "geo_nh g2 = geo_nh g" "geo_w g2 = geo_w g" "geo_h g2 = geo_h g"
    "rat_of_int (geo_sw g2) \<le> geo_w g2" "rat_of_int (geo_sh g2) \<le> geo_h g2"
    by blast
  define g3 where "g3 = alignment_calculate g2"
  have nz: "geo_nw g3 \<noteq> 0" "geo_nh g3 \<noteq> 0" using assms g2 by (simp_all add: g3_def)
  obtain r where
    "get_b_frame_image b_props input_ar output_ar distort width height g = Inr (g3, r)"
    using get_b_frame_image_tail [OF nz, of width height] g2(1) nz
    unfolding get_b_frame_image_def g1_def [symmetric] g3_def [symmetric]
    by (auto simp: Let_def g3_def [symmetric])
  then show ?thesis using g2 by (auto simp: g3_def)
qed

text \<open>
  Claim C6, witness: the example of the specification, an overlay of native size
  100 by 50 with aspect ratio 2, negotiated into a requested box of 40 by 40.
\<close>

theorem scaled_within_requested_witness:
  "\<exists>g' r. get_b_frame_image
       (\<lambda>k. if k = ''real_width'' then 100 else if k = ''real_height'' then 50 else 0)
       2 1 None 100 100
       \<lparr>geo_nw = 100, geo_nh = 100, geo_sw = 0, geo_sh = 0, geo_x = 0, geo_y = 0,
        geo_w = 40, geo_h = 40, geo_mix = 100, geo_halign = 0, geo_valign = 0\<rparr> = Inr (g', r)
     \<and> geo_w g' = 40 \<and> geo_h g' = 40
     \<and> rat_of_int (geo_sw g') \<le> geo_w g' \<and> rat_of_int (geo_sh g') \<le> geo_h g'"
  using scaled_within_requested
    [where g = "\<lparr>geo_nw = 100, geo_nh = 100, geo_sw = 0, geo_sh = 0, geo_x = 0, geo_y = 0,
        geo_w = 40, geo_h = 40, geo_mix = 100, geo_halign = 0, geo_valign = 0\<rparr>"
      and distort = None and input_ar = 2 and output_ar = 1 and width = 100 and height = 100
      and b_props = "\<lambda>k. if k = ''real_width'' then 100 else if k = ''real_height'' then 50 else 0"]
  by simp

text \<open>
  Claim C6, counterexample: a requested width of \<open>-1/2\<close>. The conversion to
  \<^verbatim>\<open>int\<close> truncates towards zero, so \<open>sw\<close> starts at 0; the candidate width 0 is
  not adopted because \<open>0 \<le> -1/2\<close> is false, and \<open>sw = 0\<close> exceeds \<open>w\<close>.
\<close>

theorem scaled_negative_width_counterexample:
  "get_b_frame_image
       (\<lambda>k. if k = ''real_width'' then 100 else if k = ''real_height'' then 50 else 0)
       2 1 None 100 100
       \<lparr>geo_nw = 100, geo_nh = 100, geo_sw = 0, geo_sh = 0, geo_x = 0, geo_y = 0,
        geo_w = - 1 / 2, geo_h = 10, geo_mix = 100, geo_halign = 0, geo_valign = 0\<rparr>
   = Inr (\<lparr>geo_nw = 100, geo_nh = 100, geo_sw = 0, geo_sh = 10, geo_x = 1 / 2, geo_y = 1 / 2,
          geo_w = - 1 / 2, geo_h = 10, geo_mix = 100, geo_halign = 0, geo_valign = 0\<rparr>,
          Nothing_to_draw)"
  by (simp add: get_b_frame_image_def normalise_aspect_def aspect_scaled_def get_value_def
      fit_width_def fit_height_def save_scaled_def alignment_calculate_def pixel_eval)

section \<open>Parsing\<close>

text \<open>
  Claim C4, as amended. \<open>parse_value\<close> always returns a value. A token that is
  absent, because the pointer is null or the text has ended, gives the default passed
  in and leaves the pointer where it was. A token for which \<^verbatim>\<open>strtod\<close> performs no
  conversion (it returns 0 and the start of the text) gives 0, whatever the default,
  and the pointer skips only delimiter and percent characters.
\<close>

theorem parse_value_fallback:
  "parse_value strtod None n delim d = (d, None)
   \<and> parse_value strtod (Some []) n delim d = (d, Some [])
   \<and> (s \<noteq> [] \<and> strtod s = (0, s) \<longrightarrow>
        parse_value strtod (Some s) n delim d
          = (0, Some (dropWhile (\<lambda>c. c = delim \<or> c = CHR ''%'') s)))"
  by (auto simp add: parse_value_def split: list.splits)

text \<open>
  Claim C4, witness: the token \<open>abc\<close> with the default 75.
\<close>

theorem parse_value_fallback_witness:
  "strtod_dec ''abc'' = (0, ''abc'')
   \<and> parse_value strtod_dec (Some ''abc'') 100 (CHR '' '') 75 = (0, Some ''abc'')"
  using parse_value_fallback [of strtod_dec 100 "CHR '' ''" 75 "''abc''"]
  by (simp add: strtod_eval)

text \<open>
  Claim C4, counterexample: in \<open>10,20:30x40:abc\<close> the token for the mix is
  malformed; with a defaults geometry whose mix is 75 the parsed mix is 0, not 75.
\<close>

theorem geometry_parse_malformed_counterexample:
  "geo_mix (geometry_parse strtod_dec
      \<lparr>geo_nw = 0, geo_nh = 0, geo_sw = 0, geo_sh = 0, geo_x = 0, geo_y = 0,
       geo_w = 0, geo_h = 0, geo_mix = 0, geo_halign = 0, geo_valign = 0\<rparr>
      (Some \<lparr>geo_nw = 100, geo_nh = 100, geo_sw = 3, geo_sh = 4, geo_x = 1, geo_y = 2,
       geo_w = 3, geo_h = 4, geo_mix = 75, geo_halign = 0, geo_valign = 0\<rparr>)
      (Some ''10,20:30x40:abc'') 100 100) = 0"
  by (simp add: geometry_parse_def parse_value_def strtod_eval)


text \<open>
  Claim C8, the code at a failing input. Without a defaults geometry the code assigns
  only \<open>mix = 100\<close> before it parses, so a field whose token is missing keeps what
  the structure held before the call (in \<^verbatim>\<open>transition_get_image\<close> an uninitialised
  local): for the empty text \<open>x\<close> and \<open>y\<close> are the old values and \<open>w\<close>, \<open>h\<close> the
  old values truncated, and for \<open>10,20\<close> on a structure that held \<open>w = 7\<close>,
  \<open>h = 8\<close> the result has \<open>w = 7\<close>, \<open>h = 8\<close>, not 0.
\<close>

theorem geometry_parse_no_defaults:
  "geometry_parse strtod g None (Some []) nw nh
     = g\<lparr>geo_nw := nw, geo_nh := nh, geo_mix := 100,
         geo_sw := c_trunc (geo_w g), geo_w := rat_of_int (c_trunc (geo_w g)),
         geo_sh := c_trunc (geo_h g), geo_h := rat_of_int (c_trunc (geo_h g))\<rparr>
   \<and> geometry_parse strtod_dec
      \<lparr>geo_nw = 1, geo_nh = 2, geo_sw = 3, geo_sh = 4, geo_x = 5, geo_y = 6,
       geo_w = 7, geo_h = 8, geo_mix = 9, geo_halign = 0, geo_valign = 0\<rparr>
      None (Some ''10,20'') 720 576
     = \<lparr>geo_nw = 720, geo_nh = 576, geo_sw = 7, geo_sh = 8, geo_x = 10, geo_y = 20,
       geo_w = 7, geo_h = 8, geo_mix = 100, geo_halign = 0, geo_valign = 0\<rparr>"
  by (simp add: geometry_parse_def parse_value_def strtod_eval)

section \<open>Alignment\<close>




section \<open>The constructor\<close>







end
